theory Spec2Isabelle
  imports Main
begin

section \<open>The AAA configuration actioner (CLI/actioner/sonic\_cli\_aaa.py)\<close>

text \<open>
  The actioner turns one parsed CLI invocation into at most one REST call and an exit
  status. Python strings are modelled as \<^typ>\<open>string\<close>, one \<^typ>\<open>char\<close> per code
  point below 256; Python's \<^verbatim>\<open>None\<close> for an optional argument is \<^term>\<open>None\<close>.
\<close>

subsection \<open>Python string primitives used by the module\<close>

text \<open>
  \<^verbatim>\<open>str.isspace\<close> on one character, for the code points below 256: tab, line feed,
  vertical tab, form feed, carriage return, the four separators 0x1C to 0x1F, space,
  NEL (0x85) and the no-break space (0xA0).
\<close>

definition isspace :: "char \<Rightarrow> bool" where
  "isspace c =
     (let n = (of_char c :: nat)
      in (9 \<le> n \<and> n \<le> 13) \<or> (28 \<le> n \<and> n \<le> 32) \<or> n = 133 \<or> n = 160)"

text \<open>\<^verbatim>\<open>s.strip()\<close>: leading and trailing whitespace removed.\<close>

definition strip :: "string \<Rightarrow> string" where
  "strip s = rev (dropWhile isspace (rev (dropWhile isspace s)))"

text \<open>\<^verbatim>\<open>sep.join(xs)\<close> on a list of strings.\<close>

fun join_str :: "string \<Rightarrow> string list \<Rightarrow> string" where
  "join_str sep [] = []"
| "join_str sep [x] = x"
| "join_str sep (x # y # ys) = x @ sep @ join_str sep (y # ys)"

text \<open>\<^verbatim>\<open>str(b)\<close> on a Python bool.\<close>

definition str_bool :: "bool \<Rightarrow> string" where
  "str_bool b = (if b then ''True'' else ''False'')"

subsection \<open>External collaborators\<close>

text \<open>
  Modelled from the spec: the path helper \<^verbatim>\<open>cli_client.Path\<close> is not among the
  sources. It is kept symbolic: \<open>Path s\<close> is the constructor call and
  \<open>Join p sub\<close> the call \<^verbatim>\<open>p.join(sub)\<close>.
\<close>

datatype path = Path string | Join path string

text \<open>JSON-like request bodies, as the dict literals of the handlers build them.\<close>

datatype json = JBool bool | JStr string | JList "json list" | JDict "(string \<times> json) list"

text \<open>
  One call on the transport client. The GET of the module passes the path as a plain
  string together with the \<^verbatim>\<open>ignore404\<close> flag; PATCH and DELETE pass a path object.
\<close>

datatype request = Get string bool | Patch path json | Delete path

text \<open>
  Modelled from the spec: the payload of a GET response (\<^verbatim>\<open>resp.content\<close>) is the
  AAA configuration tree of the store: three branches, each holding an optional
  \<^verbatim>\<open>config\<close> node; the method attributes are lists of method names and the four
  flags are booleans. Every key may be absent (\<^term>\<open>None\<close>). The field names stand for
  the keys \<^verbatim>\<open>authentication-method\<close>, \<^verbatim>\<open>openconfig-system-ext:failthrough\<close>, ...,
  \<^verbatim>\<open>openconfig-system:aaa\<close>; \<open>other_keys\<close> lists top-level keys the handler never reads
  (they only matter for the truth value of the dict).
\<close>

record authentication_config =
  authentication_method :: "string list option"
  openconfig_system_ext_failthrough :: "bool option"
  openconfig_system_ext_fallback :: "bool option"
  openconfig_system_ext_debug :: "bool option"
  openconfig_system_ext_trace :: "bool option"

record authorization_config =
  authorization_method :: "string list option"

record accounting_config =
  accounting_method :: "string list option"

record 'c container =
  config :: "'c option"

record aaa_tree =
  authentication_branch :: "authentication_config container option"
  authorization_branch :: "authorization_config container option"
  accounting_branch :: "accounting_config container option"

record aaa_content =
  openconfig_system_aaa :: "aaa_tree option"
  other_keys :: "string list"

text \<open>
  Modelled from the spec: the transport response exposes success or failure, an error
  message and, for GET, a content payload.
\<close>

record response =
  ok :: bool
  error_message :: string
  content :: "aaa_content option"

text \<open>The transport client answers each request; a handler issues at most one.\<close>

type_synonym api_client = "request \<Rightarrow> response"

subsection \<open>The Display Record\<close>

record login_display =
  login :: string

record authentication_display = login_display +
  failthrough :: string
  fallback :: string
  debug :: string
  trace :: string

record aaa_data =
  authentication :: authentication_display
  authorization :: login_display
  accounting :: login_display

subsection \<open>Observable effects\<close>

text \<open>
  What one invocation does to the outside: the REST calls issued, the lines printed and
  the calls of the rendering facility \<^verbatim>\<open>show_cli_output(template, data)\<close>, each in order.
\<close>

record world =
  calls :: "request list"
  printed :: "string list"
  rendered :: "(string \<times> aaa_data) list"

definition py_print :: "string \<Rightarrow> world \<Rightarrow> world" where
  "py_print s w = w\<lparr>printed := printed w @ [s]\<rparr>"

definition api_call :: "api_client \<Rightarrow> request \<Rightarrow> world \<Rightarrow> response \<times> world" where
  "api_call api req w = (api req, w\<lparr>calls := calls w @ [req]\<rparr>)"

definition show_cli_output :: "string \<Rightarrow> aaa_data \<Rightarrow> world \<Rightarrow> world" where
  "show_cli_output template d w = w\<lparr>rendered := rendered w @ [(template, d)]\<rparr>"

subsection \<open>Helpers of the module\<close>

definition AAA_PATH :: string where
  "AAA_PATH = ''/restconf/data/openconfig-system:system/aaa''"

text \<open>\<^verbatim>\<open>if subpath:\<close> is false for \<^verbatim>\<open>None\<close> and for the empty string.\<close>

definition aaa_path :: "string option \<Rightarrow> path" where
  "aaa_path subpath =
     (let p = Path AAA_PATH
      in case subpath of
           None \<Rightarrow> p
         | Some s \<Rightarrow> if s \<noteq> [] then Join p s else p)"

definition check_ok :: "response \<Rightarrow> world \<Rightarrow> int \<times> world" where
  "check_ok resp w =
     (if \<not> ok resp then (1, py_print (error_message resp) w) else (0, w))"

definition option_to_bool :: "string \<Rightarrow> bool option" where
  "option_to_bool option =
     (if option = ''enable'' then Some True
      else if option = ''disable'' then Some False
      else None)"

text \<open>
  \<^verbatim>\<open>if m and m.strip():\<close> holds when the argument is a string, is not empty, and its
  stripped form is not empty.
\<close>

definition methods_to_list :: "string option \<Rightarrow> string option \<Rightarrow> string list" where
  "methods_to_list method1 method2 =
     (let methods = [];
          methods = (case method1 of
                       None \<Rightarrow> methods
                     | Some m \<Rightarrow> if m \<noteq> [] \<and> strip m \<noteq> [] then methods @ [m] else methods);
          methods = (case method2 of
                       None \<Rightarrow> methods
                     | Some m \<Rightarrow> if m \<noteq> [] \<and> strip m \<noteq> [] then methods @ [m] else methods)
      in methods)"

subsection \<open>Handlers: the four boolean attributes\<close>

text \<open>
  Every handler takes the transport client, its positional arguments (the ignored
  \<^verbatim>\<open>*args\<close> as a list) and the effects so far, and returns its status with the
  effects extended.
\<close>

definition delete_openconfig_aaa_aaa_authentication_failthrough ::
  "api_client \<Rightarrow> string list \<Rightarrow> world \<Rightarrow> int \<times> world" where
  "delete_openconfig_aaa_aaa_authentication_failthrough api args w =
     (let path = aaa_path (Some ''authentication/config/openconfig-system-ext:failthrough'');
          (resp, w1) = api_call api (Delete path) w
      in check_ok resp w1)"

definition patch_openconfig_aaa_aaa_authentication_failthrough ::
  "api_client \<Rightarrow> string \<Rightarrow> string list \<Rightarrow> world \<Rightarrow> int \<times> world" where
  "patch_openconfig_aaa_aaa_authentication_failthrough api option args w =
     (if option = ''default'' then delete_openconfig_aaa_aaa_authentication_failthrough api [] w
      else case option_to_bool option of
        None \<Rightarrow> (1, py_print (''Invalid option: '' @ option) w)
      | Some val \<Rightarrow>
          let path = aaa_path (Some ''authentication/config'');
              body = JDict [(''openconfig-system:config'',
                             JDict [(''openconfig-system-ext:failthrough'', JBool val)])];
              (resp, w1) = api_call api (Patch path body) w
          in check_ok resp w1)"

definition delete_openconfig_aaa_aaa_authentication_fallback ::
  "api_client \<Rightarrow> string list \<Rightarrow> world \<Rightarrow> int \<times> world" where
  "delete_openconfig_aaa_aaa_authentication_fallback api args w =
     (let path = aaa_path (Some ''authentication/config/openconfig-system-ext:fallback'');
          (resp, w1) = api_call api (Delete path) w
      in check_ok resp w1)"

definition patch_openconfig_aaa_aaa_authentication_fallback ::
  "api_client \<Rightarrow> string \<Rightarrow> string list \<Rightarrow> world \<Rightarrow> int \<times> world" where
  "patch_openconfig_aaa_aaa_authentication_fallback api option args w =
     (if option = ''default'' then delete_openconfig_aaa_aaa_authentication_fallback api [] w
      else case option_to_bool option of
        None \<Rightarrow> (1, py_print (''Invalid option: '' @ option) w)
      | Some val \<Rightarrow>
          let path = aaa_path (Some ''authentication/config'');
              body = JDict [(''openconfig-system:config'',
                             JDict [(''openconfig-system-ext:fallback'', JBool val)])];
              (resp, w1) = api_call api (Patch path body) w
          in check_ok resp w1)"

definition delete_openconfig_aaa_aaa_authentication_debug ::
  "api_client \<Rightarrow> string list \<Rightarrow> world \<Rightarrow> int \<times> world" where
  "delete_openconfig_aaa_aaa_authentication_debug api args w =
     (let path = aaa_path (Some ''authentication/config/openconfig-system-ext:debug'');
          (resp, w1) = api_call api (Delete path) w
      in check_ok resp w1)"

definition patch_openconfig_aaa_aaa_authentication_debug ::
  "api_client \<Rightarrow> string \<Rightarrow> string list \<Rightarrow> world \<Rightarrow> int \<times> world" where
  "patch_openconfig_aaa_aaa_authentication_debug api option args w =
     (if option = ''default'' then delete_openconfig_aaa_aaa_authentication_debug api [] w
      else case option_to_bool option of
        None \<Rightarrow> (1, py_print (''Invalid option: '' @ option) w)
      | Some val \<Rightarrow>
          let path = aaa_path (Some ''authentication/config'');
              body = JDict [(''openconfig-system:config'',
                             JDict [(''openconfig-system-ext:debug'', JBool val)])];
              (resp, w1) = api_call api (Patch path body) w
          in check_ok resp w1)"

definition delete_openconfig_aaa_aaa_authentication_trace ::
  "api_client \<Rightarrow> string list \<Rightarrow> world \<Rightarrow> int \<times> world" where
  "delete_openconfig_aaa_aaa_authentication_trace api args w =
     (let path = aaa_path (Some ''authentication/config/openconfig-system-ext:trace'');
          (resp, w1) = api_call api (Delete path) w
      in check_ok resp w1)"

definition patch_openconfig_aaa_aaa_authentication_trace ::
  "api_client \<Rightarrow> string \<Rightarrow> string list \<Rightarrow> world \<Rightarrow> int \<times> world" where
  "patch_openconfig_aaa_aaa_authentication_trace api option args w =
     (if option = ''default'' then delete_openconfig_aaa_aaa_authentication_trace api [] w
      else case option_to_bool option of
        None \<Rightarrow> (1, py_print (''Invalid option: '' @ option) w)
      | Some val \<Rightarrow>
          let path = aaa_path (Some ''authentication/config'');
              body = JDict [(''openconfig-system:config'',
                             JDict [(''openconfig-system-ext:trace'', JBool val)])];
              (resp, w1) = api_call api (Patch path body) w
          in check_ok resp w1)"

subsection \<open>Handlers: the three method lists\<close>

definition delete_openconfig_aaa_aaa_authentication_login ::
  "api_client \<Rightarrow> string list \<Rightarrow> world \<Rightarrow> int \<times> world" where
  "delete_openconfig_aaa_aaa_authentication_login api args w =
     (let path = aaa_path (Some ''authentication/config/authentication-method'');
          (resp, w1) = api_call api (Delete path) w
      in check_ok resp w1)"

definition patch_openconfig_aaa_aaa_authentication_login ::
  "api_client \<Rightarrow> string option \<Rightarrow> string option \<Rightarrow> string list \<Rightarrow> world \<Rightarrow> int \<times> world" where
  "patch_openconfig_aaa_aaa_authentication_login api method1 method2 args w =
     (let methods = methods_to_list method1 method2
      in if methods = [] then
           (1, py_print ''At least one authentication method is required'' w)
         else
           let path = aaa_path (Some ''authentication/config'');
               body = JDict [(''openconfig-system:config'',
                              JDict [(''authentication-method'', JList (map JStr methods))])];
               (resp, w1) = api_call api (Patch path body) w
           in check_ok resp w1)"

definition delete_openconfig_aaa_aaa_authorization_login ::
  "api_client \<Rightarrow> string list \<Rightarrow> world \<Rightarrow> int \<times> world" where
  "delete_openconfig_aaa_aaa_authorization_login api args w =
     (let path = aaa_path (Some ''authorization/config/authorization-method'');
          (resp, w1) = api_call api (Delete path) w
      in check_ok resp w1)"

definition patch_openconfig_aaa_aaa_authorization_login ::
  "api_client \<Rightarrow> string option \<Rightarrow> string option \<Rightarrow> string list \<Rightarrow> world \<Rightarrow> int \<times> world" where
  "patch_openconfig_aaa_aaa_authorization_login api method1 method2 args w =
     (let methods = methods_to_list method1 method2
      in if methods = [] then
           (1, py_print ''At least one authorization method is required'' w)
         else
           let path = aaa_path (Some ''authorization/config'');
               body = JDict [(''openconfig-system:config'',
                              JDict [(''authorization-method'', JList (map JStr methods))])];
               (resp, w1) = api_call api (Patch path body) w
           in check_ok resp w1)"

definition delete_openconfig_aaa_aaa_accounting_login ::
  "api_client \<Rightarrow> string list \<Rightarrow> world \<Rightarrow> int \<times> world" where
  "delete_openconfig_aaa_aaa_accounting_login api args w =
     (let path = aaa_path (Some ''accounting/config/accounting-method'');
          (resp, w1) = api_call api (Delete path) w
      in check_ok resp w1)"

definition patch_openconfig_aaa_aaa_accounting_login ::
  "api_client \<Rightarrow> string option \<Rightarrow> string option \<Rightarrow> string list \<Rightarrow> world \<Rightarrow> int \<times> world" where
  "patch_openconfig_aaa_aaa_accounting_login api method1 method2 args w =
     (if method1 = Some ''disable'' then delete_openconfig_aaa_aaa_accounting_login api [] w
      else let methods = methods_to_list method1 method2
        in if methods = [] then
             (1, py_print ''At least one accounting method is required'' w)
           else
             let path = aaa_path (Some ''accounting/config'');
                 body = JDict [(''openconfig-system:config'',
                                JDict [(''accounting-method'', JList (map JStr methods))])];
                 (resp, w1) = api_call api (Patch path body) w
             in check_ok resp w1)"

subsection \<open>The Get-All handler\<close>

text \<open>The dict literal the handler starts from.\<close>

definition default_aaa_data :: aaa_data where
  "default_aaa_data =
     \<lparr>authentication =
        \<lparr>login = ''local (default)'',
         failthrough = ''False (default)'',
         fallback = ''False (default)'',
         debug = ''False (default)'',
         trace = ''False (default)''\<rparr>,
      authorization = \<lparr>login = ''local (default)''\<rparr>,
      accounting = \<lparr>login = ''disable (default)''\<rparr>\<rparr>"

text \<open>
  The empty dict \<^verbatim>\<open>{}\<close> that \<^verbatim>\<open>.get(key, {})\<close> falls back to, at each level of the
  payload.
\<close>

definition empty_tree :: aaa_tree where
  "empty_tree =
     \<lparr>authentication_branch = None, authorization_branch = None, accounting_branch = None\<rparr>"

definition empty_authentication_config :: authentication_config where
  "empty_authentication_config =
     \<lparr>authentication_method = None,
      openconfig_system_ext_failthrough = None,
      openconfig_system_ext_fallback = None,
      openconfig_system_ext_debug = None,
      openconfig_system_ext_trace = None\<rparr>"

definition empty_authorization_config :: authorization_config where
  "empty_authorization_config = \<lparr>authorization_method = None\<rparr>"

definition empty_accounting_config :: accounting_config where
  "empty_accounting_config = \<lparr>accounting_method = None\<rparr>"

text \<open>\<^verbatim>\<open>if resp.content:\<close> is false for \<^verbatim>\<open>None\<close> and for a dict without keys.\<close>

definition content_truthy :: "aaa_content option \<Rightarrow> bool" where
  "content_truthy c =
     (case c of
        None \<Rightarrow> False
      | Some d \<Rightarrow> openconfig_system_aaa d \<noteq> None \<or> other_keys d \<noteq> [])"

text \<open>
  The section \<^verbatim>\<open># Parse authentication config\<close>: the five overwrites of the
  authentication fields, in the order of the source.
\<close>

definition parse_authentication :: "aaa_tree \<Rightarrow> aaa_data \<Rightarrow> aaa_data" where
  "parse_authentication data aaa_data0 =
     (let aaa_data = aaa_data0;
          auth_config =
            (case authentication_branch data of
               None \<Rightarrow> empty_authentication_config
             | Some b \<Rightarrow> (case config b of
                           None \<Rightarrow> empty_authentication_config | Some cfg \<Rightarrow> cfg));
          aaa_data =
            (case authentication_method auth_config of
               None \<Rightarrow> aaa_data
             | Some methods \<Rightarrow>
                 if methods \<noteq> [] then
                   aaa_data\<lparr>authentication :=
                     (authentication aaa_data)\<lparr>login := join_str '','' methods\<rparr>\<rparr>
                 else aaa_data);
          aaa_data =
            (case openconfig_system_ext_failthrough auth_config of
               None \<Rightarrow> aaa_data
             | Some v \<Rightarrow>
                 aaa_data\<lparr>authentication :=
                   (authentication aaa_data)\<lparr>failthrough := str_bool v\<rparr>\<rparr>);
          aaa_data =
            (case openconfig_system_ext_fallback auth_config of
               None \<Rightarrow> aaa_data
             | Some v \<Rightarrow>
                 aaa_data\<lparr>authentication :=
                   (authentication aaa_data)\<lparr>fallback := str_bool v\<rparr>\<rparr>);
          aaa_data =
            (case openconfig_system_ext_debug auth_config of
               None \<Rightarrow> aaa_data
             | Some v \<Rightarrow>
                 aaa_data\<lparr>authentication :=
                   (authentication aaa_data)\<lparr>debug := str_bool v\<rparr>\<rparr>);
          aaa_data =
            (case openconfig_system_ext_trace auth_config of
               None \<Rightarrow> aaa_data
             | Some v \<Rightarrow>
                 aaa_data\<lparr>authentication :=
                   (authentication aaa_data)\<lparr>trace := str_bool v\<rparr>\<rparr>)
      in aaa_data)"

text \<open>The section \<^verbatim>\<open># Parse authorization config\<close>.\<close>

definition parse_authorization :: "aaa_tree \<Rightarrow> aaa_data \<Rightarrow> aaa_data" where
  "parse_authorization data aaa_data =
     (let authz_config =
            (case authorization_branch data of
               None \<Rightarrow> empty_authorization_config
             | Some b \<Rightarrow> (case config b of
                           None \<Rightarrow> empty_authorization_config | Some cfg \<Rightarrow> cfg))
      in case authorization_method authz_config of
           None \<Rightarrow> aaa_data
         | Some methods \<Rightarrow>
             if methods \<noteq> [] then
               aaa_data\<lparr>authorization :=
                 (authorization aaa_data)\<lparr>login := join_str '','' methods\<rparr>\<rparr>
             else aaa_data)"

text \<open>The section \<^verbatim>\<open># Parse accounting config\<close>.\<close>

definition parse_accounting :: "aaa_tree \<Rightarrow> aaa_data \<Rightarrow> aaa_data" where
  "parse_accounting data aaa_data =
     (let acct_config =
            (case accounting_branch data of
               None \<Rightarrow> empty_accounting_config
             | Some b \<Rightarrow> (case config b of
                           None \<Rightarrow> empty_accounting_config | Some cfg \<Rightarrow> cfg))
      in case accounting_method acct_config of
           None \<Rightarrow> aaa_data
         | Some methods \<Rightarrow>
             if methods \<noteq> [] then
               aaa_data\<lparr>accounting :=
                 (accounting aaa_data)\<lparr>login := join_str '','' methods\<rparr>\<rparr>
             else aaa_data)"

text \<open>
  The body of the handler between the GET and the rendering call: the defaults,
  overwritten from the payload when \<^verbatim>\<open>resp.content\<close> is true, section by section.
  \<open>data\<close> is \<^verbatim>\<open>resp.content.get("openconfig-system:aaa", {})\<close>.
\<close>

definition merge_content :: "aaa_content option \<Rightarrow> aaa_data" where
  "merge_content c =
     (let aaa_data = default_aaa_data
      in if \<not> content_truthy c then aaa_data
         else
           let data = (case Option.bind c openconfig_system_aaa of
                         None \<Rightarrow> empty_tree | Some d \<Rightarrow> d);
               aaa_data = parse_authentication data aaa_data;
               aaa_data = parse_authorization data aaa_data;
               aaa_data = parse_accounting data aaa_data
           in aaa_data)"

definition get_openconfig_aaa_aaa ::
  "api_client \<Rightarrow> string \<Rightarrow> string list \<Rightarrow> world \<Rightarrow> int \<times> world" where
  "get_openconfig_aaa_aaa api template args w =
     (let (resp, w1) = api_call api (Get AAA_PATH True) w
      in if \<not> ok resp then (1, py_print (error_message resp) w1)
         else
           let aaa_data = merge_content (content resp)
           in (0, show_cli_output template aaa_data w1))"

subsection \<open>The handler tables\<close>

text \<open>
  The handlers of the four boolean attributes and of the three method-list families,
  indexed by attribute, so that a property can be stated for each of them.
\<close>

datatype bool_attr = Failthrough | Fallback | Debug | Trace

fun attr_name :: "bool_attr \<Rightarrow> string" where
  "attr_name Failthrough = ''failthrough''"
| "attr_name Fallback = ''fallback''"
| "attr_name Debug = ''debug''"
| "attr_name Trace = ''trace''"

fun set_handler ::
  "bool_attr \<Rightarrow> api_client \<Rightarrow> string \<Rightarrow> string list \<Rightarrow> world \<Rightarrow> int \<times> world" where
  "set_handler Failthrough = patch_openconfig_aaa_aaa_authentication_failthrough"
| "set_handler Fallback = patch_openconfig_aaa_aaa_authentication_fallback"
| "set_handler Debug = patch_openconfig_aaa_aaa_authentication_debug"
| "set_handler Trace = patch_openconfig_aaa_aaa_authentication_trace"

fun delete_handler ::
  "bool_attr \<Rightarrow> api_client \<Rightarrow> string list \<Rightarrow> world \<Rightarrow> int \<times> world" where
  "delete_handler Failthrough = delete_openconfig_aaa_aaa_authentication_failthrough"
| "delete_handler Fallback = delete_openconfig_aaa_aaa_authentication_fallback"
| "delete_handler Debug = delete_openconfig_aaa_aaa_authentication_debug"
| "delete_handler Trace = delete_openconfig_aaa_aaa_authentication_trace"

datatype family = Authentication | Authorization | Accounting

fun family_name :: "family \<Rightarrow> string" where
  "family_name Authentication = ''authentication''"
| "family_name Authorization = ''authorization''"
| "family_name Accounting = ''accounting''"

fun set_login_handler ::
  "family \<Rightarrow> api_client \<Rightarrow> string option \<Rightarrow> string option \<Rightarrow> string list \<Rightarrow> world
     \<Rightarrow> int \<times> world" where
  "set_login_handler Authentication = patch_openconfig_aaa_aaa_authentication_login"
| "set_login_handler Authorization = patch_openconfig_aaa_aaa_authorization_login"
| "set_login_handler Accounting = patch_openconfig_aaa_aaa_accounting_login"

fun delete_login_handler ::
  "family \<Rightarrow> api_client \<Rightarrow> string list \<Rightarrow> world \<Rightarrow> int \<times> world" where
  "delete_login_handler Authentication = delete_openconfig_aaa_aaa_authentication_login"
| "delete_login_handler Authorization = delete_openconfig_aaa_aaa_authorization_login"
| "delete_login_handler Accounting = delete_openconfig_aaa_aaa_accounting_login"

section \<open>Properties\<close>

subsection \<open>Auxiliary facts\<close>

lemma strip_Nil: "strip [] = []"
  by (simp add: strip_def)

lemma strip_eq_Nil_iff: "strip s = [] \<longleftrightarrow> (\<forall>c\<in>set s. isspace c)"
proof
  assume "strip s = []"
  then have a: "\<forall>c\<in>set (dropWhile isspace s). isspace c"
    by (simp add: strip_def dropWhile_eq_Nil_conv)
  have "dropWhile isspace s = []"
  proof (rule ccontr)
    assume n: "dropWhile isspace s \<noteq> []"
    then have "\<not> isspace (hd (dropWhile isspace s))" by (rule hd_dropWhile)
    moreover have "hd (dropWhile isspace s) \<in> set (dropWhile isspace s)" using n by simp
    ultimately show False using a by blast
  qed
  then show "\<forall>c\<in>set s. isspace c" by (simp add: dropWhile_eq_Nil_conv)
next
  assume "\<forall>c\<in>set s. isspace c"
  then show "strip s = []" by (auto simp: strip_def dest: set_dropWhileD)
qed

text \<open>The test \<^verbatim>\<open>m and m.strip()\<close> is the test \<^verbatim>\<open>m.strip()\<close> alone.\<close>

lemma methods_to_list_alt:
  "methods_to_list m1 m2 =
     (case m1 of None \<Rightarrow> [] | Some s \<Rightarrow> if strip s \<noteq> [] then [s] else []) @
     (case m2 of None \<Rightarrow> [] | Some s \<Rightarrow> if strip s \<noteq> [] then [s] else [])"
  by (auto simp: methods_to_list_def Let_def strip_Nil split: option.splits)

lemma methods_to_list_Nil_iff:
  "methods_to_list m1 m2 = [] \<longleftrightarrow>
     (\<forall>m\<in>{m1, m2}. case m of None \<Rightarrow> True | Some s \<Rightarrow> \<forall>c\<in>set s. isspace c)"
  by (auto simp: methods_to_list_alt strip_eq_Nil_iff split: option.splits if_splits)

lemma check_ok_eq:
  "check_ok r w =
     (if ok r then 0 else 1,
      w\<lparr>printed := (if ok r then printed w else printed w @ [error_message r])\<rparr>)"
  by (simp add: check_ok_def py_print_def)

lemmas set_bool_defs =
  patch_openconfig_aaa_aaa_authentication_failthrough_def
  patch_openconfig_aaa_aaa_authentication_fallback_def
  patch_openconfig_aaa_aaa_authentication_debug_def
  patch_openconfig_aaa_aaa_authentication_trace_def

lemmas delete_bool_defs =
  delete_openconfig_aaa_aaa_authentication_failthrough_def
  delete_openconfig_aaa_aaa_authentication_fallback_def
  delete_openconfig_aaa_aaa_authentication_debug_def
  delete_openconfig_aaa_aaa_authentication_trace_def

lemmas set_login_defs =
  patch_openconfig_aaa_aaa_authentication_login_def
  patch_openconfig_aaa_aaa_authorization_login_def
  patch_openconfig_aaa_aaa_accounting_login_def

lemmas delete_login_defs =
  delete_openconfig_aaa_aaa_authentication_login_def
  delete_openconfig_aaa_aaa_authorization_login_def
  delete_openconfig_aaa_aaa_accounting_login_def

lemma delete_handler_eq:
  "delete_handler X api args w =
     (let req = Delete (Join (Path AAA_PATH)
                  (''authentication/config/openconfig-system-ext:'' @ attr_name X));
          r = api req
      in (if ok r then 0 else 1,
          w\<lparr>calls := calls w @ [req],
            printed := (if ok r then printed w else printed w @ [error_message r])\<rparr>))"
  by (cases X) (simp_all add: delete_bool_defs aaa_path_def api_call_def check_ok_eq Let_def)

lemma delete_login_handler_eq:
  "delete_login_handler fam api args w =
     (let req = Delete (Join (Path AAA_PATH)
                  (family_name fam @ ''/config/'' @ family_name fam @ ''-method''));
          r = api req
      in (if ok r then 0 else 1,
          w\<lparr>calls := calls w @ [req],
            printed := (if ok r then printed w else printed w @ [error_message r])\<rparr>))"
  by (cases fam) (simp_all add: delete_login_defs aaa_path_def api_call_def check_ok_eq Let_def)

lemma set_login_handler_patch:
  assumes "methods_to_list m1 m2 \<noteq> []"
      and "fam = Accounting \<longrightarrow> m1 \<noteq> Some ''disable''"
  shows "set_login_handler fam api m1 m2 args w =
     (let req = Patch (Join (Path AAA_PATH) (family_name fam @ ''/config''))
                  (JDict [(''openconfig-system:config'',
                     JDict [(family_name fam @ ''-method'',
                             JList (map JStr (methods_to_list m1 m2)))])]);
          r = api req
      in (if ok r then 0 else 1,
          w\<lparr>calls := calls w @ [req],
            printed := (if ok r then printed w else printed w @ [error_message r])\<rparr>))"
  using assms
  by (cases fam) (simp_all add: set_login_defs aaa_path_def api_call_def check_ok_eq Let_def)

lemma set_login_handler_empty:
  assumes "methods_to_list m1 m2 = []"
  shows "set_login_handler fam api m1 m2 args w =
     (1, w\<lparr>printed := printed w @
           [''At least one '' @ family_name fam @ '' method is required'']\<rparr>)"
proof -
  have "m1 \<noteq> Some ''disable''"
    using assms by (auto simp: methods_to_list_alt strip_def isspace_def split: if_splits)
  then show ?thesis
    using assms by (cases fam) (simp_all add: set_login_defs py_print_def Let_def)
qed

subsection \<open>The boolean attributes\<close>

text \<open>
  C1. For each of the four boolean attributes and each of the options \<open>enable\<close> and
  \<open>disable\<close>, the Set handler issues exactly one call, a PATCH to
  \<open>authentication/config\<close> whose body holds the attribute's qualified name with
  \<open>true\<close> for \<open>enable\<close> and \<open>false\<close> for \<open>disable\<close>; it returns 0 when the response
  reports success, and prints the response's error message and returns 1 when not.
\<close>

theorem set_bool_patch:
  assumes "v = ''enable'' \<or> v = ''disable''"
  shows "set_handler X api v args w =
     (let req = Patch (Join (Path AAA_PATH) ''authentication/config'')
                  (JDict [(''openconfig-system:config'',
                     JDict [(''openconfig-system-ext:'' @ attr_name X,
                             JBool (v = ''enable''))])]);
          r = api req
      in (if ok r then 0 else 1,
          w\<lparr>calls := calls w @ [req],
            printed := (if ok r then printed w else printed w @ [error_message r])\<rparr>))"
  using assms
  by (cases X)
     (auto simp: set_bool_defs option_to_bool_def aaa_path_def api_call_def check_ok_eq Let_def)

theorem set_bool_patch_witness:
  "set_handler Trace (\<lambda>q. \<lparr>ok = False, error_message = ''Test error'', content = None\<rparr>)
     ''disable'' [] \<lparr>calls = [], printed = [], rendered = []\<rparr> =
   (1, \<lparr>calls = [Patch (Join (Path AAA_PATH) ''authentication/config'')
                  (JDict [(''openconfig-system:config'',
                     JDict [(''openconfig-system-ext:trace'', JBool False)])])],
        printed = [''Test error''], rendered = []\<rparr>)"
  using set_bool_patch [where v = "''disable''" and X = Trace
      and api = "\<lambda>q. \<lparr>ok = False, error_message = ''Test error'', content = None\<rparr>"
      and args = "[]" and w = "\<lparr>calls = [], printed = [], rendered = []\<rparr>"]
  by (simp add: Let_def)

text \<open>
  C3. For each boolean attribute, the Set handler called with \<open>default\<close> does what the
  attribute's Delete handler does: one call, a DELETE at
  \<open>authentication/config/openconfig-system-ext:X\<close>, no PATCH, and the status of the
  Delete handler. (The option mapper has no value for \<open>default\<close>, so the delegation
  comes first.)
\<close>

theorem set_bool_default_delegates:
  "set_handler X api ''default'' args w = delete_handler X api args' w \<and>
   delete_handler X api args' w =
     (let req = Delete (Join (Path AAA_PATH)
                  (''authentication/config/openconfig-system-ext:'' @ attr_name X));
          r = api req
      in (if ok r then 0 else 1,
          w\<lparr>calls := calls w @ [req],
            printed := (if ok r then printed w else printed w @ [error_message r])\<rparr>)) \<and>
   option_to_bool ''default'' = None"
proof (intro conjI)
  show "set_handler X api ''default'' args w = delete_handler X api args' w"
    by (cases X) (simp_all add: set_bool_defs delete_bool_defs)
next
  show "delete_handler X api args' w =
     (let req = Delete (Join (Path AAA_PATH)
                  (''authentication/config/openconfig-system-ext:'' @ attr_name X));
          r = api req
      in (if ok r then 0 else 1,
          w\<lparr>calls := calls w @ [req],
            printed := (if ok r then printed w else printed w @ [error_message r])\<rparr>))"
    by (rule delete_handler_eq)
next
  show "option_to_bool ''default'' = None"
    by (simp add: option_to_bool_def)
qed

theorem set_bool_default_delegates_witness:
  "set_handler Failthrough (\<lambda>q. \<lparr>ok = True, error_message = [], content = None\<rparr>)
     ''default'' [''extra''] \<lparr>calls = [], printed = [], rendered = []\<rparr> =
   (0, \<lparr>calls = [Delete (Join (Path AAA_PATH)
                   ''authentication/config/openconfig-system-ext:failthrough'')],
        printed = [], rendered = []\<rparr>)"
  using set_bool_default_delegates [where X = Failthrough
      and api = "\<lambda>q. \<lparr>ok = True, error_message = [], content = None\<rparr>"
      and args = "[''extra'']" and args' = "[]"
      and w = "\<lparr>calls = [], printed = [], rendered = []\<rparr>"]
  by (simp add: Let_def)

text \<open>
  C5. For each boolean attribute and every option other than \<open>enable\<close>, \<open>disable\<close>
  and \<open>default\<close>, the Set handler issues no call, prints \<open>Invalid option: \<close> followed by
  the option, and returns 1. The option mapper is total: \<open>enable\<close> gives true,
  \<open>disable\<close> gives false, every other string gives no value.
\<close>

theorem set_bool_invalid_option:
  "(option \<notin> {''enable'', ''disable'', ''default''} \<longrightarrow>
      set_handler X api option args w =
        (1, w\<lparr>printed := printed w @ [''Invalid option: '' @ option]\<rparr>)) \<and>
   option_to_bool ''enable'' = Some True \<and>
   option_to_bool ''disable'' = Some False \<and>
   (option \<notin> {''enable'', ''disable''} \<longrightarrow> option_to_bool option = None)"
  by (cases X) (auto simp: set_bool_defs option_to_bool_def py_print_def)

theorem set_bool_invalid_option_witness:
  "set_handler Debug (\<lambda>q. \<lparr>ok = True, error_message = [], content = None\<rparr>)
     ''garbage'' [] \<lparr>calls = [], printed = [], rendered = []\<rparr> =
   (1, \<lparr>calls = [], printed = [''Invalid option: garbage''], rendered = []\<rparr>) \<and>
   option_to_bool ''garbage'' = None"
  using set_bool_invalid_option [where option = "''garbage''" and X = Debug
      and api = "\<lambda>q. \<lparr>ok = True, error_message = [], content = None\<rparr>"
      and args = "[]" and w = "\<lparr>calls = [], printed = [], rendered = []\<rparr>"]
  by simp

subsection \<open>The method list builder\<close>

text \<open>
  C8. The builder returns, in the order of the arguments, each candidate that is a
  string and is not empty after stripping whitespace; so the first candidate, when
  kept, stands before the second. \<open>methods_to_list("tacacs+", "local")\<close> is
  \<open>["tacacs+", "local"]\<close> and \<open>methods_to_list("", None)\<close> is \<open>[]\<close>.
\<close>

theorem methods_to_list_spec:
  "methods_to_list m1 m2 =
     concat (map (\<lambda>m. case m of None \<Rightarrow> []
                       | Some s \<Rightarrow> if strip s \<noteq> [] then [s] else []) [m1, m2]) \<and>
   methods_to_list (Some ''tacacs+'') (Some ''local'') = [''tacacs+'', ''local''] \<and>
   methods_to_list (Some '''') None = []"
  by (simp add: methods_to_list_alt strip_def isspace_def)

theorem methods_to_list_spec_witness:
  "methods_to_list (Some ''  '') (Some ''local'') = [''local''] \<and>
   methods_to_list (Some ''local'') (Some '''') = [''local'']"
  using methods_to_list_spec [where ?m1.0 = "Some ''  ''" and ?m2.0 = "Some ''local''"]
    methods_to_list_spec [where ?m1.0 = "Some ''local''" and ?m2.0 = "Some ''''"]
  by (simp add: strip_def isspace_def)

subsection \<open>The method-list handlers\<close>

text \<open>
  C4. The accounting-login Set handler called with first argument \<open>disable\<close> does what
  the accounting-login Delete handler does, whatever the second argument and the extra
  arguments are: one call, a DELETE at \<open>accounting/config/accounting-method\<close>, and no
  PATCH. The method list is not consulted: built from \<open>disable\<close> it would not be empty.
\<close>

theorem accounting_disable_delegates:
  "patch_openconfig_aaa_aaa_accounting_login api (Some ''disable'') method2 args w =
     delete_openconfig_aaa_aaa_accounting_login api args' w \<and>
   delete_openconfig_aaa_aaa_accounting_login api args' w =
     (let req = Delete (Join (Path AAA_PATH) ''accounting/config/accounting-method'');
          r = api req
      in (if ok r then 0 else 1,
          w\<lparr>calls := calls w @ [req],
            printed := (if ok r then printed w else printed w @ [error_message r])\<rparr>)) \<and>
   methods_to_list (Some ''disable'') method2 = ''disable'' # methods_to_list None method2"
  by (simp add: set_login_defs delete_login_defs aaa_path_def api_call_def check_ok_eq Let_def
        methods_to_list_alt strip_def isspace_def)

theorem accounting_disable_delegates_witness:
  "patch_openconfig_aaa_aaa_accounting_login
     (\<lambda>q. \<lparr>ok = True, error_message = [], content = None\<rparr>)
     (Some ''disable'') (Some ''local'') [] \<lparr>calls = [], printed = [], rendered = []\<rparr> =
   (0, \<lparr>calls = [Delete (Join (Path AAA_PATH) ''accounting/config/accounting-method'')],
        printed = [], rendered = []\<rparr>)"
  using accounting_disable_delegates [where ?method2.0 = "Some ''local''"
      and api = "\<lambda>q. \<lparr>ok = True, error_message = [], content = None\<rparr>"
      and args = "[]" and args' = "[]"
      and w = "\<lparr>calls = [], printed = [], rendered = []\<rparr>"]
  by (simp add: Let_def)

text \<open>
  C6. The built method list is empty exactly when each of the two arguments is absent
  or consists of whitespace only (the empty string included). Then the Set handler of
  each family prints \<open>At least one <family> method is required\<close>, returns 1 and issues
  no call. Hence every PATCH a Set handler adds to the calls carries a method list that
  is not empty.
\<close>

theorem empty_method_list_rejected:
  "(methods_to_list m1 m2 = [] \<longleftrightarrow>
      (\<forall>m\<in>{m1, m2}. case m of None \<Rightarrow> True | Some s \<Rightarrow> \<forall>c\<in>set s. isspace c)) \<and>
   (methods_to_list m1 m2 = [] \<longrightarrow>
      set_login_handler fam api m1 m2 args w =
        (1, w\<lparr>printed := printed w @
              [''At least one '' @ family_name fam @ '' method is required'']\<rparr>)) \<and>
   (\<forall>p ms. Patch p (JDict [(''openconfig-system:config'',
                 JDict [(family_name fam @ ''-method'', JList ms)])])
              \<in> set (calls (snd (set_login_handler fam api m1 m2 args w)))
            \<longrightarrow> ms \<noteq> [] \<or> Patch p (JDict [(''openconfig-system:config'',
                 JDict [(family_name fam @ ''-method'', JList ms)])]) \<in> set (calls w))"
proof (intro conjI)
  show "methods_to_list m1 m2 = [] \<longleftrightarrow>
      (\<forall>m\<in>{m1, m2}. case m of None \<Rightarrow> True | Some s \<Rightarrow> \<forall>c\<in>set s. isspace c)"
    by (rule methods_to_list_Nil_iff)
next
  show "methods_to_list m1 m2 = [] \<longrightarrow>
      set_login_handler fam api m1 m2 args w =
        (1, w\<lparr>printed := printed w @
              [''At least one '' @ family_name fam @ '' method is required'']\<rparr>)"
    by (simp add: set_login_handler_empty)
next
  show "\<forall>p ms. Patch p (JDict [(''openconfig-system:config'',
                 JDict [(family_name fam @ ''-method'', JList ms)])])
              \<in> set (calls (snd (set_login_handler fam api m1 m2 args w)))
            \<longrightarrow> ms \<noteq> [] \<or> Patch p (JDict [(''openconfig-system:config'',
                 JDict [(family_name fam @ ''-method'', JList ms)])]) \<in> set (calls w)"
  proof (cases "methods_to_list m1 m2 = []")
    case True
    then show ?thesis by (simp add: set_login_handler_empty)
  next
    case nonempty: False
    show ?thesis
    proof (cases "fam = Accounting \<and> m1 = Some ''disable''")
      case True
      then have "set_login_handler fam api m1 m2 args w = delete_login_handler fam api [] w"
        by (simp add: set_login_defs)
      then show ?thesis by (simp add: delete_login_handler_eq Let_def)
    next
      case False
      with nonempty show ?thesis
        by (auto simp: set_login_handler_patch Let_def)
    qed
  qed
qed

theorem empty_method_list_rejected_witness:
  "set_login_handler Authentication (\<lambda>q. \<lparr>ok = True, error_message = [], content = None\<rparr>)
     (Some '''') None [] \<lparr>calls = [], printed = [], rendered = []\<rparr> =
   (1, \<lparr>calls = [],
        printed = [''At least one authentication method is required''],
        rendered = []\<rparr>) \<and>
   methods_to_list (Some '''') None = []"
  using empty_method_list_rejected [where ?m1.0 = "Some ''''" and ?m2.0 = None
      and fam = Authentication
      and api = "\<lambda>q. \<lparr>ok = True, error_message = [], content = None\<rparr>"
      and args = "[]" and w = "\<lparr>calls = [], printed = [], rendered = []\<rparr>"]
  by simp

text \<open>
  C9. The authentication-login and authorization-login Set handlers know no sentinel:
  for every first argument that is not blank they issue one PATCH whose method list
  starts with that argument as it is. With \<open>default\<close> the authentication handler
  PATCHes \<open>["default"]\<close>, with \<open>disable\<close> the authorization handler PATCHes
  \<open>["disable"]\<close>; the accounting handler alone answers \<open>disable\<close> with its Delete
  handler, and PATCHes \<open>["default"]\<close> like the others.
\<close>

theorem login_no_sentinel:
  "(fam \<noteq> Accounting \<and> strip m1 \<noteq> [] \<longrightarrow>
      set_login_handler fam api (Some m1) m2 args w =
        (let req = Patch (Join (Path AAA_PATH) (family_name fam @ ''/config''))
                     (JDict [(''openconfig-system:config'',
                        JDict [(family_name fam @ ''-method'',
                                JList (JStr m1 # map JStr (methods_to_list None m2)))])]);
             r = api req
         in (if ok r then 0 else 1,
             w\<lparr>calls := calls w @ [req],
               printed := (if ok r then printed w else printed w @ [error_message r])\<rparr>))) \<and>
   calls (snd (patch_openconfig_aaa_aaa_authentication_login api (Some ''default'') None args w)) =
     calls w @ [Patch (Join (Path AAA_PATH) ''authentication/config'')
                  (JDict [(''openconfig-system:config'',
                     JDict [(''authentication-method'', JList [JStr ''default''])])])] \<and>
   calls (snd (patch_openconfig_aaa_aaa_authorization_login api (Some ''disable'') None args w)) =
     calls w @ [Patch (Join (Path AAA_PATH) ''authorization/config'')
                  (JDict [(''openconfig-system:config'',
                     JDict [(''authorization-method'', JList [JStr ''disable''])])])] \<and>
   calls (snd (patch_openconfig_aaa_aaa_accounting_login api (Some ''default'') None args w)) =
     calls w @ [Patch (Join (Path AAA_PATH) ''accounting/config'')
                  (JDict [(''openconfig-system:config'',
                     JDict [(''accounting-method'', JList [JStr ''default''])])])] \<and>
   calls (snd (patch_openconfig_aaa_aaa_accounting_login api (Some ''disable'') None args w)) =
     calls w @ [Delete (Join (Path AAA_PATH) ''accounting/config/accounting-method'')]"
proof (intro conjI impI)
  assume a: "fam \<noteq> Accounting \<and> strip m1 \<noteq> []"
  then have l: "methods_to_list (Some m1) m2 = m1 # methods_to_list None m2"
    by (simp add: methods_to_list_alt)
  then have "methods_to_list (Some m1) m2 \<noteq> []" by simp
  moreover have "fam = Accounting \<longrightarrow> Some m1 \<noteq> Some ''disable''" using a by simp
  ultimately show "set_login_handler fam api (Some m1) m2 args w =
        (let req = Patch (Join (Path AAA_PATH) (family_name fam @ ''/config''))
                     (JDict [(''openconfig-system:config'',
                        JDict [(family_name fam @ ''-method'',
                                JList (JStr m1 # map JStr (methods_to_list None m2)))])]);
             r = api req
         in (if ok r then 0 else 1,
             w\<lparr>calls := calls w @ [req],
               printed := (if ok r then printed w else printed w @ [error_message r])\<rparr>))"
    using l by (simp add: set_login_handler_patch)
qed (simp_all add: set_login_defs delete_login_defs aaa_path_def api_call_def check_ok_eq
       Let_def methods_to_list_alt strip_def isspace_def)

theorem login_no_sentinel_witness:
  "set_login_handler Authorization (\<lambda>q. \<lparr>ok = True, error_message = [], content = None\<rparr>)
     (Some ''default'') (Some ''local'') [] \<lparr>calls = [], printed = [], rendered = []\<rparr> =
   (0, \<lparr>calls = [Patch (Join (Path AAA_PATH) ''authorization/config'')
                   (JDict [(''openconfig-system:config'',
                      JDict [(''authorization-method'',
                              JList [JStr ''default'', JStr ''local''])])])],
        printed = [], rendered = []\<rparr>)"
  using login_no_sentinel [where fam = Authorization and ?m1.0 = "''default''"
      and ?m2.0 = "Some ''local''"
      and api = "\<lambda>q. \<lparr>ok = True, error_message = [], content = None\<rparr>"
      and args = "[]" and w = "\<lparr>calls = [], printed = [], rendered = []\<rparr>"]
  by (simp add: Let_def strip_def isspace_def methods_to_list_alt)

text \<open>
  C10. Stripping serves the emptiness test only: a candidate that is not blank enters
  the list as it was given, with its surrounding whitespace, and so does it enter the
  body of the PATCH. For \<open>" local "\<close> the stripped form is \<open>"local"\<close>, the list is
  \<open>[" local "]\<close>. Every element of a built list is one of the two candidates.
\<close>

theorem methods_to_list_untrimmed:
  "(strip s \<noteq> [] \<longrightarrow>
      methods_to_list (Some s) m2 = s # methods_to_list None m2 \<and>
      methods_to_list m1 (Some s) = methods_to_list m1 None @ [s] \<and>
      calls (snd (patch_openconfig_aaa_aaa_authentication_login api (Some s) m2 args w)) =
        calls w @ [Patch (Join (Path AAA_PATH) ''authentication/config'')
                     (JDict [(''openconfig-system:config'',
                        JDict [(''authentication-method'',
                                JList (JStr s # map JStr (methods_to_list None m2)))])])]) \<and>
   (\<forall>x\<in>set (methods_to_list m1 m2). m1 = Some x \<or> m2 = Some x) \<and>
   strip '' local '' = ''local'' \<and>
   methods_to_list (Some '' local '') None = ['' local '']"
proof (intro conjI impI)
  assume a: "strip s \<noteq> []"
  then show l: "methods_to_list (Some s) m2 = s # methods_to_list None m2"
    by (simp add: methods_to_list_alt)
  from a show "methods_to_list m1 (Some s) = methods_to_list m1 None @ [s]"
    by (simp add: methods_to_list_alt)
  from l show "calls (snd (patch_openconfig_aaa_aaa_authentication_login api (Some s) m2 args w)) =
        calls w @ [Patch (Join (Path AAA_PATH) ''authentication/config'')
                     (JDict [(''openconfig-system:config'',
                        JDict [(''authentication-method'',
                                JList (JStr s # map JStr (methods_to_list None m2)))])])]"
    by (simp add: set_login_defs aaa_path_def api_call_def check_ok_eq Let_def)
next
  show "\<forall>x\<in>set (methods_to_list m1 m2). m1 = Some x \<or> m2 = Some x"
    by (auto simp: methods_to_list_alt split: option.splits if_splits)
next
  show "strip '' local '' = ''local''"
    by (simp add: strip_def isspace_def)
next
  show "methods_to_list (Some '' local '') None = ['' local '']"
    by (simp add: methods_to_list_alt strip_def isspace_def)
qed

theorem methods_to_list_untrimmed_witness:
  "methods_to_list (Some ''tacacs+'') (Some '' local '') = [''tacacs+'', '' local ''] \<and>
   calls (snd (patch_openconfig_aaa_aaa_authentication_login
                 (\<lambda>q. \<lparr>ok = True, error_message = [], content = None\<rparr>)
                 (Some '' local '') None [] \<lparr>calls = [], printed = [], rendered = []\<rparr>)) =
     [Patch (Join (Path AAA_PATH) ''authentication/config'')
        (JDict [(''openconfig-system:config'',
           JDict [(''authentication-method'', JList [JStr '' local ''])])])]"
  using methods_to_list_untrimmed [where s = "'' local ''" and ?m1.0 = "Some ''tacacs+''"
      and ?m2.0 = None
      and api = "\<lambda>q. \<lparr>ok = True, error_message = [], content = None\<rparr>"
      and args = "[]" and w = "\<lparr>calls = [], printed = [], rendered = []\<rparr>"]
  by (simp add: strip_def isspace_def methods_to_list_alt)

subsection \<open>The Get-All handler\<close>

text \<open>
  Each section reads its values along a path of keys; a key absent anywhere on the path
  leaves the field as it was. \<open>Option.bind\<close> follows one key of the path.
\<close>

lemma parse_authentication_eq:
  "parse_authentication t d =
     d\<lparr>authentication :=
        \<lparr>login =
           (case Option.bind (Option.bind (authentication_branch t) config)
                   authentication_method of
              None \<Rightarrow> login (authentication d)
            | Some ms \<Rightarrow> if ms = [] then login (authentication d) else join_str '','' ms),
         failthrough =
           (case Option.bind (Option.bind (authentication_branch t) config)
                   openconfig_system_ext_failthrough of
              None \<Rightarrow> failthrough (authentication d)
            | Some b \<Rightarrow> if b then ''True'' else ''False''),
         fallback =
           (case Option.bind (Option.bind (authentication_branch t) config)
                   openconfig_system_ext_fallback of
              None \<Rightarrow> fallback (authentication d)
            | Some b \<Rightarrow> if b then ''True'' else ''False''),
         debug =
           (case Option.bind (Option.bind (authentication_branch t) config)
                   openconfig_system_ext_debug of
              None \<Rightarrow> debug (authentication d)
            | Some b \<Rightarrow> if b then ''True'' else ''False''),
         trace =
           (case Option.bind (Option.bind (authentication_branch t) config)
                   openconfig_system_ext_trace of
              None \<Rightarrow> trace (authentication d)
            | Some b \<Rightarrow> if b then ''True'' else ''False'')\<rparr>\<rparr>"
proof (cases "Option.bind (authentication_branch t) config")
  case None
  then have "(case authentication_branch t of
               None \<Rightarrow> empty_authentication_config
             | Some b \<Rightarrow> (case config b of
                           None \<Rightarrow> empty_authentication_config | Some cfg \<Rightarrow> cfg))
             = empty_authentication_config"
    by (cases "authentication_branch t") (auto split: option.splits)
  with None show ?thesis
    by (simp add: parse_authentication_def empty_authentication_config_def)
next
  case (Some cfg)
  then have e: "(case authentication_branch t of
               None \<Rightarrow> empty_authentication_config
             | Some b \<Rightarrow> (case config b of
                           None \<Rightarrow> empty_authentication_config | Some cfg \<Rightarrow> cfg))
             = cfg"
    by (cases "authentication_branch t") (auto split: option.splits)
  show ?thesis
    unfolding parse_authentication_def e Some
    by (cases "authentication_method cfg"; cases "openconfig_system_ext_failthrough cfg";
        cases "openconfig_system_ext_fallback cfg"; cases "openconfig_system_ext_debug cfg";
        cases "openconfig_system_ext_trace cfg")
       (simp_all add: str_bool_def)
qed

lemma parse_authorization_eq:
  "parse_authorization t d =
     d\<lparr>authorization :=
        \<lparr>login =
           (case Option.bind (Option.bind (authorization_branch t) config)
                   authorization_method of
              None \<Rightarrow> login (authorization d)
            | Some ms \<Rightarrow> if ms = [] then login (authorization d) else join_str '','' ms)\<rparr>\<rparr>"
  by (cases "authorization_branch t")
     (auto simp: parse_authorization_def empty_authorization_config_def split: option.splits)

lemma parse_accounting_eq:
  "parse_accounting t d =
     d\<lparr>accounting :=
        \<lparr>login =
           (case Option.bind (Option.bind (accounting_branch t) config)
                   accounting_method of
              None \<Rightarrow> login (accounting d)
            | Some ms \<Rightarrow> if ms = [] then login (accounting d) else join_str '','' ms)\<rparr>\<rparr>"
  by (cases "accounting_branch t")
     (auto simp: parse_accounting_def empty_accounting_config_def split: option.splits)

lemma merge_content_Some:
  assumes "openconfig_system_aaa c = Some t"
  shows "merge_content (Some c) =
     parse_accounting t (parse_authorization t (parse_authentication t default_aaa_data))"
  using assms by (simp add: merge_content_def content_truthy_def)

lemma get_openconfig_aaa_aaa_eq:
  "get_openconfig_aaa_aaa api template args w =
     (let req = Get AAA_PATH True; r = api req
      in if ok r then
           (0, w\<lparr>calls := calls w @ [req],
                 rendered := rendered w @ [(template, merge_content (content r))]\<rparr>)
         else
           (1, w\<lparr>calls := calls w @ [req],
                 printed := printed w @ [error_message r]\<rparr>))"
  by (simp add: get_openconfig_aaa_aaa_def api_call_def py_print_def show_cli_output_def Let_def)

text \<open>
  C7. The handler issues one GET at the AAA root with the not-found flag set. When the
  response reports failure, it prints the response's error message, returns 1 and does
  not call the rendering facility. When the response reports success, it prints
  nothing, calls the rendering facility once, with the template and the merged Display
  Record, and returns 0; with no content (\<^verbatim>\<open>None\<close> or the empty dict, as for an
  ignored not-found) the record rendered is the default one.
\<close>

theorem get_all_status:
  "get_openconfig_aaa_aaa api template args w =
     (let req = Get AAA_PATH True; r = api req
      in if ok r then
           (0, w\<lparr>calls := calls w @ [req],
                 rendered := rendered w @ [(template, merge_content (content r))]\<rparr>)
         else
           (1, w\<lparr>calls := calls w @ [req],
                 printed := printed w @ [error_message r]\<rparr>)) \<and>
   merge_content None = default_aaa_data \<and>
   merge_content (Some \<lparr>openconfig_system_aaa = None, other_keys = []\<rparr>) = default_aaa_data"
  by (simp add: get_openconfig_aaa_aaa_eq merge_content_def content_truthy_def)

theorem get_all_status_witness:
  "get_openconfig_aaa_aaa
     (\<lambda>q. \<lparr>ok = False, error_message = ''Connection failed'', content = None\<rparr>)
     ''show_aaa.j2'' [] \<lparr>calls = [], printed = [], rendered = []\<rparr> =
   (1, \<lparr>calls = [Get AAA_PATH True], printed = [''Connection failed''], rendered = []\<rparr>) \<and>
   get_openconfig_aaa_aaa
     (\<lambda>q. \<lparr>ok = True, error_message = [], content = None\<rparr>)
     ''show_aaa.j2'' [] \<lparr>calls = [], printed = [], rendered = []\<rparr> =
   (0, \<lparr>calls = [Get AAA_PATH True], printed = [],
        rendered = [(''show_aaa.j2'', default_aaa_data)]\<rparr>)"
  using get_all_status [where template = "''show_aaa.j2''" and args = "[]"
      and api = "\<lambda>q. \<lparr>ok = False, error_message = ''Connection failed'', content = None\<rparr>"
      and w = "\<lparr>calls = [], printed = [], rendered = []\<rparr>"]
    get_all_status [where template = "''show_aaa.j2''" and args = "[]"
      and api = "\<lambda>q. \<lparr>ok = True, error_message = [], content = None\<rparr>"
      and w = "\<lparr>calls = [], printed = [], rendered = []\<rparr>"]
  by (simp add: Let_def)

text \<open>
  C2. Let the GET succeed with a payload that holds the key \<open>openconfig-system:aaa\<close>.
  The record rendered is the merged one, and each of its fields is determined by the
  value at its key path alone: a method-list field is the comma-join of the list, in
  order, when the list is present and not empty, and its default otherwise; a flag
  field is \<open>True\<close> or \<open>False\<close> when the key is present, whatever the value, and
  \<open>False (default)\<close> otherwise. In particular, with \<open>authentication-method\<close> equal to
  \<open>["tacacs+", "local"]\<close> the login field is \<open>tacacs+,local\<close>.
\<close>

theorem get_all_display:
  assumes "ok (api (Get AAA_PATH True))"
      and "content (api (Get AAA_PATH True)) = Some c"
      and "openconfig_system_aaa c = Some t"
  shows "get_openconfig_aaa_aaa api template args w =
       (0, w\<lparr>calls := calls w @ [Get AAA_PATH True],
             rendered := rendered w @ [(template, merge_content (Some c))]\<rparr>) \<and>
     merge_content (Some c) =
       \<lparr>authentication =
          \<lparr>login =
             (case Option.bind (Option.bind (authentication_branch t) config)
                     authentication_method of
                None \<Rightarrow> ''local (default)''
              | Some ms \<Rightarrow> if ms = [] then ''local (default)'' else join_str '','' ms),
           failthrough =
             (case Option.bind (Option.bind (authentication_branch t) config)
                     openconfig_system_ext_failthrough of
                None \<Rightarrow> ''False (default)''
              | Some b \<Rightarrow> if b then ''True'' else ''False''),
           fallback =
             (case Option.bind (Option.bind (authentication_branch t) config)
                     openconfig_system_ext_fallback of
                None \<Rightarrow> ''False (default)''
              | Some b \<Rightarrow> if b then ''True'' else ''False''),
           debug =
             (case Option.bind (Option.bind (authentication_branch t) config)
                     openconfig_system_ext_debug of
                None \<Rightarrow> ''False (default)''
              | Some b \<Rightarrow> if b then ''True'' else ''False''),
           trace =
             (case Option.bind (Option.bind (authentication_branch t) config)
                     openconfig_system_ext_trace of
                None \<Rightarrow> ''False (default)''
              | Some b \<Rightarrow> if b then ''True'' else ''False'')\<rparr>,
        authorization =
          \<lparr>login =
             (case Option.bind (Option.bind (authorization_branch t) config)
                     authorization_method of
                None \<Rightarrow> ''local (default)''
              | Some ms \<Rightarrow> if ms = [] then ''local (default)'' else join_str '','' ms)\<rparr>,
        accounting =
          \<lparr>login =
             (case Option.bind (Option.bind (accounting_branch t) config)
                     accounting_method of
                None \<Rightarrow> ''disable (default)''
              | Some ms \<Rightarrow> if ms = [] then ''disable (default)'' else join_str '','' ms)\<rparr>\<rparr> \<and>
     (Option.bind (Option.bind (authentication_branch t) config) authentication_method =
        Some [''tacacs+'', ''local''] \<longrightarrow>
      login (authentication (merge_content (Some c))) = ''tacacs+,local'')"
proof -
  have m: "merge_content (Some c) =
     parse_accounting t (parse_authorization t (parse_authentication t default_aaa_data))"
    using assms(3) by (rule merge_content_Some)
  have g: "get_openconfig_aaa_aaa api template args w =
       (0, w\<lparr>calls := calls w @ [Get AAA_PATH True],
             rendered := rendered w @ [(template, merge_content (Some c))]\<rparr>)"
    using assms(1,2) by (simp add: get_openconfig_aaa_aaa_eq Let_def)
  have f: "merge_content (Some c) =
       \<lparr>authentication =
          \<lparr>login =
             (case Option.bind (Option.bind (authentication_branch t) config)
                     authentication_method of
                None \<Rightarrow> ''local (default)''
              | Some ms \<Rightarrow> if ms = [] then ''local (default)'' else join_str '','' ms),
           failthrough =
             (case Option.bind (Option.bind (authentication_branch t) config)
                     openconfig_system_ext_failthrough of
                None \<Rightarrow> ''False (default)''
              | Some b \<Rightarrow> if b then ''True'' else ''False''),
           fallback =
             (case Option.bind (Option.bind (authentication_branch t) config)
                     openconfig_system_ext_fallback of
                None \<Rightarrow> ''False (default)''
              | Some b \<Rightarrow> if b then ''True'' else ''False''),
           debug =
             (case Option.bind (Option.bind (authentication_branch t) config)
                     openconfig_system_ext_debug of
                None \<Rightarrow> ''False (default)''
              | Some b \<Rightarrow> if b then ''True'' else ''False''),
           trace =
             (case Option.bind (Option.bind (authentication_branch t) config)
                     openconfig_system_ext_trace of
                None \<Rightarrow> ''False (default)''
              | Some b \<Rightarrow> if b then ''True'' else ''False'')\<rparr>,
        authorization =
          \<lparr>login =
             (case Option.bind (Option.bind (authorization_branch t) config)
                     authorization_method of
                None \<Rightarrow> ''local (default)''
              | Some ms \<Rightarrow> if ms = [] then ''local (default)'' else join_str '','' ms)\<rparr>,
        accounting =
          \<lparr>login =
             (case Option.bind (Option.bind (accounting_branch t) config)
                     accounting_method of
                None \<Rightarrow> ''disable (default)''
              | Some ms \<Rightarrow> if ms = [] then ''disable (default)'' else join_str '','' ms)\<rparr>\<rparr>"
    unfolding m parse_accounting_eq parse_authorization_eq parse_authentication_eq
    by (simp add: default_aaa_data_def cong: option.case_cong if_cong)
  have l: "Option.bind (Option.bind (authentication_branch t) config) authentication_method =
        Some [''tacacs+'', ''local''] \<longrightarrow>
      login (authentication (merge_content (Some c))) = ''tacacs+,local''"
    unfolding f by simp
  from g f l show ?thesis by blast
qed

theorem get_all_display_witness:
  "get_openconfig_aaa_aaa
     (\<lambda>q. \<lparr>ok = True, error_message = [],
           content = Some \<lparr>openconfig_system_aaa = Some
             \<lparr>authentication_branch = Some \<lparr>config = Some
                \<lparr>authentication_method = Some [''tacacs+'', ''local''],
                 openconfig_system_ext_failthrough = Some True,
                 openconfig_system_ext_fallback = None,
                 openconfig_system_ext_debug = Some False,
                 openconfig_system_ext_trace = None\<rparr>\<rparr>,
              authorization_branch = Some \<lparr>config = Some \<lparr>authorization_method = Some []\<rparr>\<rparr>,
              accounting_branch = None\<rparr>,
             other_keys = []\<rparr>\<rparr>)
     ''show_aaa.j2'' [] \<lparr>calls = [], printed = [], rendered = []\<rparr> =
   (0, \<lparr>calls = [Get AAA_PATH True], printed = [],
        rendered = [(''show_aaa.j2'',
          \<lparr>authentication =
             \<lparr>login = ''tacacs+,local'', failthrough = ''True'',
              fallback = ''False (default)'', debug = ''False'',
              trace = ''False (default)''\<rparr>,
           authorization = \<lparr>login = ''local (default)''\<rparr>,
           accounting = \<lparr>login = ''disable (default)''\<rparr>\<rparr>)]\<rparr>)"
  using get_all_display [where template = "''show_aaa.j2''" and args = "[]"
      and w = "\<lparr>calls = [], printed = [], rendered = []\<rparr>"
      and api = "\<lambda>q. \<lparr>ok = True, error_message = [],
           content = Some \<lparr>openconfig_system_aaa = Some
             \<lparr>authentication_branch = Some \<lparr>config = Some
                \<lparr>authentication_method = Some [''tacacs+'', ''local''],
                 openconfig_system_ext_failthrough = Some True,
                 openconfig_system_ext_fallback = None,
                 openconfig_system_ext_debug = Some False,
                 openconfig_system_ext_trace = None\<rparr>\<rparr>,
              authorization_branch = Some \<lparr>config = Some \<lparr>authorization_method = Some []\<rparr>\<rparr>,
              accounting_branch = None\<rparr>,
             other_keys = []\<rparr>\<rparr>"
      and c = "\<lparr>openconfig_system_aaa = Some
             \<lparr>authentication_branch = Some \<lparr>config = Some
                \<lparr>authentication_method = Some [''tacacs+'', ''local''],
                 openconfig_system_ext_failthrough = Some True,
                 openconfig_system_ext_fallback = None,
                 openconfig_system_ext_debug = Some False,
                 openconfig_system_ext_trace = None\<rparr>\<rparr>,
              authorization_branch = Some \<lparr>config = Some \<lparr>authorization_method = Some []\<rparr>\<rparr>,
              accounting_branch = None\<rparr>,
             other_keys = []\<rparr>"
      and t = "\<lparr>authentication_branch = Some \<lparr>config = Some
                \<lparr>authentication_method = Some [''tacacs+'', ''local''],
                 openconfig_system_ext_failthrough = Some True,
                 openconfig_system_ext_fallback = None,
                 openconfig_system_ext_debug = Some False,
                 openconfig_system_ext_trace = None\<rparr>\<rparr>,
              authorization_branch = Some \<lparr>config = Some \<lparr>authorization_method = Some []\<rparr>\<rparr>,
              accounting_branch = None\<rparr>"]
  by simp

end
